theory Spec2Isabelle
  imports Complex_Main
begin

section \<open>Arrays and the list-to-array conversion\<close>

text \<open>
  The exceptions that can leave the code under study. \<open>ValueError\<close> is what
  \<^verbatim>\<open>np.asarray\<close> raises, \<open>IndexError\<close> is Python's list indexing out of range;
  the other four are the error names of the specification.
\<close>

datatype error =
    ValueError
  | IndexError
  | ShapeMismatchError
  | DimensionMismatchError
  | AlignmentDivergedError
  | ConfigurationError

text \<open>
  An \<^verbatim>\<open>ndarray\<close>: its shape and its elements in row-major order.
\<close>

record 'a ndarray =
  shape :: "nat list"
  data :: "'a list"

text \<open>
  \<^verbatim>\<open>np.asarray\<close> on a list of arrays. When all members have one shape \<open>s\<close>, the
  result is the array of shape \<open>(len, *s)\<close> holding the members in order (the empty
  list gives the empty array of shape \<open>(0,)\<close>). What happens to a list without a
  common member shape belongs to numpy and differs between its releases (a
  \<^verbatim>\<open>ValueError\<close>, or an array of objects), so it is the parameter \<open>np\<close>.
\<close>

definition homogeneous :: "'a ndarray list \<Rightarrow> bool" where
  "homogeneous xs = list_all (\<lambda>x. shape x = shape (hd xs)) xs"

definition stack :: "'a ndarray list \<Rightarrow> 'a ndarray" where
  "stack xs =
     \<lparr>shape = length xs # (case xs of [] \<Rightarrow> [] | x # _ \<Rightarrow> shape x),
      data = concat (map data xs)\<rparr>"

type_synonym 'a ragged = "'a ndarray list \<Rightarrow> error + 'a ndarray"

definition np_asarray :: "'a ragged \<Rightarrow> 'a ndarray list \<Rightarrow> error + 'a ndarray" where
  "np_asarray np xs = (if homogeneous xs then Inr (stack xs) else np xs)"

text \<open>Current numpy releases: a list of arrays of different shapes is refused.\<close>

definition numpy_strict :: "'a ragged" where
  "numpy_strict xs = Inl ValueError"

section \<open>IncrementalCorrelationFilterThinWrapper (clm/expert/base.py)\<close>

text \<open>
  The patches argument \<open>X\<close> / \<open>Z\<close> of both methods: a Python list of arrays or
  one array.
\<close>

datatype 'a patches = PList "'a ndarray list" | PArray "'a ndarray"

text \<open>
  The instance holds the two callables given to \<^verbatim>\<open>__init__\<close> and nothing else.
  The result type \<open>'r\<close> of the callables is whatever the solver returns.
\<close>

record ('a, 'r) thin_wrapper =
  cf_callable :: "'a ndarray \<Rightarrow> 'a ndarray \<Rightarrow> error + 'r"
  icf_callable ::
    "'a ndarray \<Rightarrow> 'a ndarray \<Rightarrow> int \<Rightarrow> 'a ndarray \<Rightarrow> 'a ndarray \<Rightarrow> error + 'r"

definition init ::
  "('a ndarray \<Rightarrow> 'a ndarray \<Rightarrow> error + 'r) \<Rightarrow>
   ('a ndarray \<Rightarrow> 'a ndarray \<Rightarrow> int \<Rightarrow> 'a ndarray \<Rightarrow> 'a ndarray \<Rightarrow> error + 'r) \<Rightarrow>
   ('a, 'r) thin_wrapper" where
  "init cf icf = \<lparr>cf_callable = cf, icf_callable = icf\<rparr>"

definition increment ::
  "'a ragged \<Rightarrow> ('a, 'r) thin_wrapper \<Rightarrow> 'a ndarray \<Rightarrow> 'a ndarray \<Rightarrow> int \<Rightarrow>
   'a patches \<Rightarrow> 'a ndarray \<Rightarrow> error + 'r" where
  "increment np self A B n_x Z t =
     (case Z of
        PList zs \<Rightarrow>
          (case np_asarray np zs of
             Inl e \<Rightarrow> Inl e
           | Inr Z' \<Rightarrow> icf_callable self A B n_x Z' t)
      | PArray Z' \<Rightarrow> icf_callable self A B n_x Z' t)"

definition train ::
  "'a ragged \<Rightarrow> ('a, 'r) thin_wrapper \<Rightarrow> 'a patches \<Rightarrow> 'a ndarray \<Rightarrow> error + 'r" where
  "train np self X t =
     (case X of
        PList xs \<Rightarrow>
          (case np_asarray np xs of
             Inl e \<Rightarrow> Inl e
           | Inr X' \<Rightarrow> cf_callable self X' t)
      | PArray X' \<Rightarrow> cf_callable self X' t)"

text \<open>
  Method calls on one instance, with the instance threaded through: neither method
  assigns to \<^verbatim>\<open>self\<close>, so each call hands the instance on as it found it.
\<close>

datatype 'a call =
    Train "'a patches" "'a ndarray"
  | Increment "'a ndarray" "'a ndarray" int "'a patches" "'a ndarray"

fun invoke ::
  "'a ragged \<Rightarrow> ('a, 'r) thin_wrapper \<Rightarrow> 'a call \<Rightarrow> (error + 'r) \<times> ('a, 'r) thin_wrapper" where
  "invoke np self (Train X t) = (train np self X t, self)"
| "invoke np self (Increment A B n_x Z t) = (increment np self A B n_x Z t, self)"

fun run_calls ::
  "'a ragged \<Rightarrow> ('a, 'r) thin_wrapper \<Rightarrow> 'a call list \<Rightarrow>
   (error + 'r) list \<times> ('a, 'r) thin_wrapper" where
  "run_calls np self [] = ([], self)"
| "run_calls np self (c # cs) =
     (case invoke np self c of
        (r, self') \<Rightarrow> (case run_calls np self' cs of (rs, self'') \<Rightarrow> (r # rs, self'')))"

section \<open>The correlation-filter solver behind the wrapper\<close>

text \<open>
  The data the specification names: the filter and the sufficient statistics a solver
  returns.
\<close>

record 'a sufficient_statistics =
  auto_correlation :: "'a ndarray"
  cross_correlation :: "'a ndarray"
  sample_count :: int

type_synonym 'a trained = "'a ndarray \<times> 'a sufficient_statistics"

text \<open>
  The geometry of a batch: patches of shape \<open>(n_channels, patch_h, patch_w)\<close> and a
  response of shape \<open>(1, response_h, response_w)\<close>, every extent positive, give
  \<open>N = (patch_h + response_h - 1) * (patch_w + response_w - 1) * n_channels\<close> and a
  filter of shape \<open>(n_channels, response_h, response_w)\<close>.
\<close>

fun extended_size :: "nat list \<Rightarrow> nat list \<Rightarrow> nat option" where
  "extended_size [c, ph, pw] [l, rh, rw] =
     (if l = 1 \<and> 0 < c \<and> 0 < ph \<and> 0 < pw \<and> 0 < rh \<and> 0 < rw
      then Some ((ph + rh - 1) * (pw + rw - 1) * c) else None)"
| "extended_size g ts = None"

fun filter_shape :: "nat list \<Rightarrow> nat list \<Rightarrow> nat list" where
  "filter_shape [c, ph, pw] [l, rh, rw] = [c, rh, rw]"
| "filter_shape g ts = []"

definition stats_match :: "'a ndarray \<Rightarrow> 'a ndarray \<Rightarrow> nat \<Rightarrow> bool" where
  "stats_match A B N = (shape A = [N] \<and> shape B = [N, N])"

text \<open>
  Modelled from the spec: the solver primitive \<^verbatim>\<open>mccf\<close> of
  \<^verbatim>\<open>menpofit.math.correlationfilter\<close>, which the wrapper imports and which is
  not among the sources. The specification treats the solve as opaque and fixes only
  its contract (sections 4.1 and 6): on a non-empty batch of one geometry,
  \<^verbatim>\<open>solve\<close> returns a filter and statistics of the shapes above.
\<close>

definition solve_contract ::
  "('a ndarray \<Rightarrow> 'a ndarray \<Rightarrow> error + 'a trained) \<Rightarrow> bool" where
  "solve_contract cf =
     (\<forall>X t m g N.
        shape X = m # g \<and> 0 < m \<and> extended_size g (shape t) = Some N \<longrightarrow>
        (\<exists>f S. cf X t = Inr (f, S) \<and> shape f = filter_shape g (shape t) \<and>
           stats_match (auto_correlation S) (cross_correlation S) N))"

text \<open>
  Modelled from the spec: the incremental solver primitive \<^verbatim>\<open>imccf\<close> of the same
  module, not among the sources either. Its contract is the one of shapes (sections 3
  and 6, and the \<^verbatim>\<open>Returns\<close> part of the docstring of \<^verbatim>\<open>increment\<close>): given
  statistics of size \<open>N\<close> for the geometry of the batch,
  \<^verbatim>\<open>solve_incremental\<close> returns a filter and statistics of the shapes above.
\<close>

definition solve_incremental_contract ::
  "('a ndarray \<Rightarrow> 'a ndarray \<Rightarrow> int \<Rightarrow> 'a ndarray \<Rightarrow> 'a ndarray \<Rightarrow> error + 'a trained) \<Rightarrow> bool"
  where
  "solve_incremental_contract icf =
     (\<forall>A B n X t m g N.
        shape X = m # g \<and> 0 < m \<and> extended_size g (shape t) = Some N \<and>
        stats_match A B N \<longrightarrow>
        (\<exists>f S. icf A B n X t = Inr (f, S) \<and> shape f = filter_shape g (shape t) \<and>
           stats_match (auto_correlation S) (cross_correlation S) N))"

text \<open>
  A solver that meets the contract, for the closed instances below: it learns the zero
  filter and keeps zero statistics of the right sizes. Its incremental form refuses
  statistics of another size and adds the size of the batch to the count it is given.
\<close>

definition zeros :: "nat list \<Rightarrow> ('a::zero) ndarray" where
  "zeros s = \<lparr>shape = s, data = replicate (prod_list s) 0\<rparr>"

definition null_cf :: "('a::zero) ndarray \<Rightarrow> 'a ndarray \<Rightarrow> error + 'a trained" where
  "null_cf X t =
     (case shape X of
        [] \<Rightarrow> Inl ShapeMismatchError
      | m # g \<Rightarrow>
          (case extended_size g (shape t) of
             None \<Rightarrow> Inl ShapeMismatchError
           | Some N \<Rightarrow>
               if m = 0 then Inl ShapeMismatchError
               else Inr (zeros (filter_shape g (shape t)),
                         \<lparr>auto_correlation = zeros [N], cross_correlation = zeros [N, N],
                          sample_count = int m\<rparr>)))"

definition null_icf ::
  "('a::zero) ndarray \<Rightarrow> 'a ndarray \<Rightarrow> int \<Rightarrow> 'a ndarray \<Rightarrow> 'a ndarray \<Rightarrow> error + 'a trained"
  where
  "null_icf A B n X t =
     (case null_cf X t of
        Inl e \<Rightarrow> Inl e
      | Inr (f, S) \<Rightarrow>
          if stats_match A B (hd (shape (auto_correlation S)))
          then Inr (f, S\<lparr>sample_count := n + sample_count S\<rparr>)
          else Inl DimensionMismatchError)"

definition null_wrapper :: "(int, int trained) thin_wrapper" where
  "null_wrapper = init null_cf null_icf"

text \<open>
  Another callable the constructor accepts as \<^verbatim>\<open>icf_callable\<close>: an incremental
  solver that looks at the new batch only. It compares the statistics it is given with
  nothing and counts the patches of the batch alone.
\<close>

definition batch_only_icf ::
  "('a::zero) ndarray \<Rightarrow> 'a ndarray \<Rightarrow> int \<Rightarrow> 'a ndarray \<Rightarrow> 'a ndarray \<Rightarrow> error + 'a trained"
  where
  "batch_only_icf A B n X t = null_cf X t"

definition batch_only_wrapper :: "(int, int trained) thin_wrapper" where
  "batch_only_wrapper = init null_cf batch_only_icf"

text \<open>
  What a patches argument looks like once it is an array: the shape of the array the
  solver receives, when the list has one. \<^verbatim>\<open>len\<close> of the argument.
\<close>

definition batch_shape :: "'a patches \<Rightarrow> nat list option" where
  "batch_shape Z =
     (case Z of
        PList zs \<Rightarrow> if homogeneous zs then Some (shape (stack zs)) else None
      | PArray Z' \<Rightarrow> Some (shape Z'))"

definition batch_of :: "nat list \<Rightarrow> 'a patches \<Rightarrow> bool" where
  "batch_of g Z =
     (case batch_shape Z of
        Some (m # g') \<Rightarrow> 0 < m \<and> g' = g
      | _ \<Rightarrow> False)"

definition batch_len :: "'a patches \<Rightarrow> nat" where
  "batch_len Z =
     (case Z of
        PList zs \<Rightarrow> length zs
      | PArray Z' \<Rightarrow> (case shape Z' of [] \<Rightarrow> 0 | m # _ \<Rightarrow> m))"

text \<open>
  \<^verbatim>\<open>len\<close> of an array, and the array that a patches argument is for the solver
  when it is an array or a list of one member shape.
\<close>

definition array_len :: "'a ndarray \<Rightarrow> nat" where
  "array_len X = (case shape X of [] \<Rightarrow> 0 | m # _ \<Rightarrow> m)"

definition as_array :: "'a patches \<Rightarrow> 'a ndarray" where
  "as_array Z = (case Z of PList zs \<Rightarrow> stack zs | PArray Z' \<Rightarrow> Z')"

text \<open>
  A caller that chains \<^verbatim>\<open>increment\<close>: each call receives the statistics and the
  sample count the previous call returned.
\<close>

fun increment_all ::
  "'a ragged \<Rightarrow> ('a, 'a trained) thin_wrapper \<Rightarrow> 'a sufficient_statistics \<Rightarrow>
   'a patches list \<Rightarrow> 'a ndarray \<Rightarrow> error + 'a sufficient_statistics" where
  "increment_all np self S [] t = Inr S"
| "increment_all np self S (Z # Zs) t =
     (case increment np self (auto_correlation S) (cross_correlation S) (sample_count S) Z t of
        Inl e \<Rightarrow> Inl e
      | Inr (f, S') \<Rightarrow> increment_all np self S' Zs t)"

section \<open>The alignment algorithm of one scale\<close>

text \<open>
  Modelled from the spec: the per-scale algorithm (\<^verbatim>\<open>RegularisedLandmarkMeanShift\<close>
  of \<^verbatim>\<open>clm/algorithm\<close>, imported by \<^verbatim>\<open>clm/fitter.py\<close> and not among the
  sources), as section 4.2 of the specification gives it for a parametric shape model.
  It is built from one expert ensemble and one shape model: \<open>reconstruct\<close> is the
  shape model's projection-and-reconstruction, \<open>responses\<close> evaluates every patch
  detector at the current estimate, \<open>degenerate\<close> recognises a response map that
  carries no information, \<open>update\<close> is the regularised mean-shift step and
  \<open>converged\<close> the algorithm's own convergence check.
\<close>

record ('img, 's, 'rm) alignment_algorithm =
  reconstruct :: "'s \<Rightarrow> 's"
  responses :: "'img \<Rightarrow> 's \<Rightarrow> 'rm list"
  degenerate :: "'rm \<Rightarrow> bool"
  update :: "'s \<Rightarrow> 'rm list \<Rightarrow> 's"
  converged :: "'s \<Rightarrow> 's \<Rightarrow> bool"

datatype stop_reason = MaxIters | Converged

record 's algorithm_result =
  shapes :: "'s list"
  n_iters :: nat
  stop :: stop_reason

text \<open>
  Modelled from the spec: the counted iterations of section 4.2, at most \<open>k\<close> of
  them, from the estimate \<open>cur\<close>: each one evaluates the detectors, fails with \<open>AlignmentDivergedError\<close> when the response map
  of every landmark is degenerate, and otherwise emits the updated estimate; it stops at
  the bound or at convergence and says which.
\<close>

fun iterations ::
  "('img, 's, 'rm) alignment_algorithm \<Rightarrow> 'img \<Rightarrow> nat \<Rightarrow> 's \<Rightarrow>
   error + ('s list \<times> stop_reason)" where
  "iterations alg img 0 cur = Inr ([], MaxIters)"
| "iterations alg img (Suc k) cur =
     (let maps = responses alg img cur in
      if list_all (degenerate alg) maps then Inl AlignmentDivergedError
      else
        let nxt = update alg cur maps in
        if converged alg cur nxt then Inr ([nxt], Converged)
        else (case iterations alg img k nxt of
                Inl e \<Rightarrow> Inl e
              | Inr (ss, r) \<Rightarrow> Inr (nxt # ss, r)))"

text \<open>
  Modelled from the spec:
  \<^verbatim>\<open>run(image, initial_shape, max_iters, gt_shape=None)\<close> of section 4.2. The
  reconstruction of the initial shape comes first and is index 0 of the result; the counted iterations follow.
  The ground-truth shape takes no part in the iteration.
\<close>

definition run ::
  "('img, 's, 'rm) alignment_algorithm \<Rightarrow> 'img \<Rightarrow> 's \<Rightarrow> nat \<Rightarrow> 's option \<Rightarrow>
   error + 's algorithm_result" where
  "run alg img initial_shape max_iters gt_shape =
     (let s0 = reconstruct alg initial_shape in
      case iterations alg img max_iters s0 of
        Inl e \<Rightarrow> Inl e
      | Inr (ss, r) \<Rightarrow> Inr \<lparr>shapes = s0 # ss, n_iters = length ss, stop = r\<rparr>)"

text \<open>
  An algorithm on integer shapes for the closed instances: reconstruction clears the
  sign, every step halves the estimate, and the estimate has converged when a step no
  longer moves it.
\<close>

definition halving :: "(unit, int, int) alignment_algorithm" where
  "halving =
     \<lparr>reconstruct = abs,
      responses = (\<lambda>img s. [s]),
      degenerate = (\<lambda>m. False),
      update = (\<lambda>s maps. s div 2),
      converged = (\<lambda>s s'. s = s')\<rparr>"

section \<open>Active shape components\<close>

text \<open>
  Modelled from the spec: the shape model and \<^verbatim>\<open>checks.set_models_components\<close>
  (\<^verbatim>\<open>menpofit.checks\<close>, called by \<^verbatim>\<open>GradientDescentCLMFitter.__init__\<close> and not
  among the sources), as sections 3, 4.3, 6, 7 and 8 of the specification give them.
  A shape model keeps \<open>n_components\<close> components from training time and shows
  \<open>n_active_components\<close> of them; how many leading components a variance fraction
  selects belongs to its basis (\<open>components_for_variance\<close>). The setting is an
  \<^verbatim>\<open>int\<close> (the exact count), a \<^verbatim>\<open>float\<close> (the fraction of variance to keep), a
  list with one of those per scale, or \<^verbatim>\<open>None\<close> (all available components). A
  negative count, a count above the retained one and a list whose length is not the
  number of scales are \<open>ConfigurationError\<close>s.
\<close>

record shape_model =
  n_components :: nat
  n_active_components :: nat
  components_for_variance :: "real \<Rightarrow> nat"

datatype component_setting = Count int | Variance real

datatype n_shape = NoneGiven | Single component_setting | PerScale "component_setting list"

text \<open>
  Modelled from the spec: the mutator of the shape model (sections 6 and 8). A float
  sets the count its variance fraction selects, under the same bounds as a count given
  directly.
\<close>

definition set_count :: "shape_model \<Rightarrow> int \<Rightarrow> error + shape_model" where
  "set_count m k =
     (if k < 0 \<or> int (n_components m) < k then Inl ConfigurationError
      else Inr (m\<lparr>n_active_components := nat k\<rparr>))"

fun set_active :: "shape_model \<Rightarrow> component_setting \<Rightarrow> error + shape_model" where
  "set_active m (Count k) = set_count m k"
| "set_active m (Variance v) = set_count m (int (components_for_variance m v))"

fun set_each :: "shape_model list \<Rightarrow> component_setting list \<Rightarrow> error + shape_model list" where
  "set_each [] [] = Inr []"
| "set_each (m # ms) (v # vs) =
     (case set_active m v of
        Inl e \<Rightarrow> Inl e
      | Inr m' \<Rightarrow> (case set_each ms vs of Inl e \<Rightarrow> Inl e | Inr ms' \<Rightarrow> Inr (m' # ms')))"
| "set_each ms vs = Inl ConfigurationError"

text \<open>
  Modelled from the spec: the setting of all scales (section 4.3), where \<^verbatim>\<open>None\<close>
  uses all available components.
\<close>

definition use_all :: "shape_model \<Rightarrow> shape_model" where
  "use_all m = m\<lparr>n_active_components := n_components m\<rparr>"

definition set_models_components :: "shape_model list \<Rightarrow> n_shape \<Rightarrow> error + shape_model list" where
  "set_models_components models n =
     (case n of
        NoneGiven \<Rightarrow> Inr (map use_all models)
      | Single v \<Rightarrow> set_each models (replicate (length models) v)
      | PerScale vs \<Rightarrow> set_each models vs)"

text \<open>A shape model with five retained components, for the closed instances.\<close>

definition five :: shape_model where
  "five = \<lparr>n_components = 5, n_active_components = 2,
           components_for_variance = (\<lambda>v. if v \<le> 1 / 2 then 1 else 3)\<rparr>"

section \<open>CLMFitter and GradientDescentCLMFitter (clm/fitter.py)\<close>

text \<open>
  The attributes of the trained CLM that the constructors read. CLM objects live in a
  store, addressed by reference, so that one object can be told from an equal copy and
  a change made through one reference is seen through every other.
\<close>

record ('e, 'sm, 'sc, 'rs, 'hf) clm_model =
  shape_models :: "'sm list"
  expert_ensembles :: "'e list"
  n_scales :: nat
  scales :: "'sc list"
  reference_shape :: 'rs
  holistic_features :: 'hf

type_synonym ('e, 'sm, 'sc, 'rs, 'hf) store = "nat \<Rightarrow> ('e, 'sm, 'sc, 'rs, 'hf) clm_model"

text \<open>
  The fitter: \<^verbatim>\<open>self._model\<close> is the reference to the CLM; the superclass
  constructor (\<^verbatim>\<open>MultiScaleParametricFitter\<close> of \<^verbatim>\<open>menpofit.fitter\<close>, not among
  the sources) keeps the four arguments it is called with, which \<^verbatim>\<open>__str__\<close> and
  \<^verbatim>\<open>_fitter_result\<close> read back as \<^verbatim>\<open>self.scales\<close> and \<^verbatim>\<open>self.algorithms\<close>.
\<close>

record ('alg, 'sc, 'rs, 'hf) clm_fitter =
  model :: nat
  fitter_scales :: "'sc list"
  fitter_reference_shape :: 'rs
  fitter_holistic_features :: 'hf
  algorithms :: "'alg list"

definition clm_fitter_init ::
  "('e, 'sm, 'sc, 'rs, 'hf) store \<Rightarrow> nat \<Rightarrow> 'alg list \<Rightarrow> ('alg, 'sc, 'rs, 'hf) clm_fitter" where
  "clm_fitter_init h clm algs =
     \<lparr>model = clm,
      fitter_scales = scales (h clm),
      fitter_reference_shape = reference_shape (h clm),
      fitter_holistic_features = holistic_features (h clm),
      algorithms = algs\<rparr>"

text \<open>
  The list comprehension over \<^verbatim>\<open>range(clm.n_scales)\<close>: indexing either list out of
  range raises \<open>IndexError\<close>.
\<close>

fun build_algorithms ::
  "('e \<Rightarrow> 'sm \<Rightarrow> 'alg) \<Rightarrow> 'e list \<Rightarrow> 'sm list \<Rightarrow> nat list \<Rightarrow> error + 'alg list" where
  "build_algorithms gd_algorithm_cls es sms [] = Inr []"
| "build_algorithms gd_algorithm_cls es sms (i # is) =
     (if i < length es \<and> i < length sms
      then (case build_algorithms gd_algorithm_cls es sms is of
              Inl e \<Rightarrow> Inl e
            | Inr algs \<Rightarrow> Inr (gd_algorithm_cls (es ! i) (sms ! i) # algs))
      else Inl IndexError)"

text \<open>
  \<^verbatim>\<open>GradientDescentCLMFitter.__init__\<close>. \<open>smc\<close> stands for
  \<^verbatim>\<open>checks.set_models_components\<close>, which sets the shape models of the CLM in
  place, and \<open>gd_algorithm_cls\<close> for the algorithm class; a successful construction
  returns the fitter and the store as the constructor left it.
\<close>

definition gd_clm_fitter_init ::
  "('sm list \<Rightarrow> 'n \<Rightarrow> error + 'sm list) \<Rightarrow> ('e, 'sm, 'sc, 'rs, 'hf) store \<Rightarrow> nat \<Rightarrow>
   ('e \<Rightarrow> 'sm \<Rightarrow> 'alg) \<Rightarrow> 'n \<Rightarrow>
   error + (('alg, 'sc, 'rs, 'hf) clm_fitter \<times> ('e, 'sm, 'sc, 'rs, 'hf) store)" where
  "gd_clm_fitter_init smc h clm gd_algorithm_cls n_shape =
     (case smc (shape_models (h clm)) n_shape of
        Inl e \<Rightarrow> Inl e
      | Inr sms \<Rightarrow>
          (let h' = h(clm := (h clm)\<lparr>shape_models := sms\<rparr>) in
           case build_algorithms gd_algorithm_cls (expert_ensembles (h' clm))
                  (shape_models (h' clm)) [0..<n_scales (h' clm)] of
             Inl e \<Rightarrow> Inl e
           | Inr algs \<Rightarrow> Inr (clm_fitter_init h' clm algs, h')))"

text \<open>A store of two-scale CLMs over the shape model above, for the closed instances.\<close>

definition two_scale :: "(string, shape_model, nat, unit, unit) store" where
  "two_scale r =
     \<lparr>shape_models = [five, five], expert_ensembles = [''coarse'', ''fine''],
      n_scales = 2, scales = [1, 2], reference_shape = (), holistic_features = ()\<rparr>"

text \<open>The property \<^verbatim>\<open>clm\<close> of a fitter: the reference kept in \<^verbatim>\<open>self._model\<close>.\<close>

definition clm :: "('alg, 'sc, 'rs, 'hf) clm_fitter \<Rightarrow> nat" where
  "clm self = model self"

section \<open>Properties of the wrapper\<close>

subsection \<open>The sample solver meets the contract\<close>

lemma null_cf_contract: "solve_contract null_cf"
  unfolding solve_contract_def null_cf_def
  by (auto simp: zeros_def stats_match_def)

lemma null_icf_contract: "solve_incremental_contract null_icf"
  unfolding solve_incremental_contract_def null_icf_def null_cf_def
  by (auto simp: zeros_def stats_match_def)

subsection \<open>Calls leave the instance as it is\<close>

lemma run_calls_self: "snd (run_calls np self cs) = self"
  by (induction cs) (auto split: prod.splits elim: invoke.elims)

lemma run_calls_results: "fst (run_calls np self cs) = map (\<lambda>c. fst (invoke np self c)) cs"
proof (induction cs)
  case Nil
  show ?case by simp
next
  case (Cons c cs)
  have s: "snd (invoke np self c) = self" by (cases c) simp_all
  obtain r self' where i: "invoke np self c = (r, self')" by (cases "invoke np self c")
  with s have e: "self' = self" by simp
  obtain rs self'' where rc: "run_calls np self cs = (rs, self'')" by (cases "run_calls np self cs")
  with Cons have "rs = map (\<lambda>c. fst (invoke np self c)) cs" by simp
  with i e rc show ?case by simp
qed

subsection \<open>A well-formed batch reaches the solver as one array\<close>

lemma batch_of_increment:
  assumes "batch_of g Z"
  shows "\<exists>X. shape X = batch_len Z # g \<and> 0 < batch_len Z \<and>
           increment np self A B n Z t = icf_callable self A B n X t"
proof (cases Z)
  case (PList zs)
  with assms have h: "homogeneous zs" and s: "shape (stack zs) = length zs # g" and "0 < length zs"
    by (auto simp: batch_of_def batch_shape_def stack_def split: if_splits list.splits)
  then show ?thesis using PList
    by (auto simp: increment_def np_asarray_def batch_len_def)
next
  case (PArray a)
  with assms show ?thesis
    by (auto simp: batch_of_def batch_shape_def increment_def batch_len_def split: list.splits)
qed

lemma batch_of_train:
  assumes "batch_of g Z"
  shows "\<exists>X. shape X = batch_len Z # g \<and> 0 < batch_len Z \<and>
           train np self Z t = cf_callable self X t"
proof (cases Z)
  case (PList zs)
  with assms have h: "homogeneous zs" and s: "shape (stack zs) = length zs # g" and "0 < length zs"
    by (auto simp: batch_of_def batch_shape_def stack_def split: if_splits list.splits)
  then show ?thesis using PList
    by (auto simp: train_def np_asarray_def batch_len_def)
next
  case (PArray a)
  with assms show ?thesis
    by (auto simp: batch_of_def batch_shape_def train_def batch_len_def split: list.splits)
qed

lemma increment_forwards:
  assumes "batch_shape Z \<noteq> None"
  shows "increment np self A B n Z t = icf_callable self A B n (as_array Z) t \<and>
         batch_shape Z = Some (shape (as_array Z)) \<and> array_len (as_array Z) = batch_len Z"
proof (cases Z)
  case (PList zs)
  with assms have "homogeneous zs"
    by (simp add: batch_shape_def split: if_splits)
  with PList show ?thesis
    by (simp add: increment_def np_asarray_def batch_shape_def as_array_def array_len_def
        batch_len_def stack_def)
next
  case (PArray a)
  then show ?thesis
    by (simp add: increment_def batch_shape_def as_array_def array_len_def batch_len_def)
qed

lemma batch_of_shape: "batch_of g Z \<Longrightarrow> batch_shape Z = Some (batch_len Z # g)"
  by (cases Z)
    (auto simp: batch_of_def batch_shape_def batch_len_def stack_def split: if_splits list.splits)

lemma increment_step:
  assumes c: "solve_incremental_contract (icf_callable self)"
    and g: "extended_size g (shape t) = Some N"
    and b: "batch_of g Z"
    and m: "stats_match A B N"
  shows "\<exists>f S. increment np self A B n Z t = Inr (f, S) \<and> shape f = filter_shape g (shape t) \<and>
           stats_match (auto_correlation S) (cross_correlation S) N"
proof -
  from batch_of_increment [OF b] obtain X where
    X: "shape X = batch_len Z # g" "0 < batch_len Z"
       "increment np self A B n Z t = icf_callable self A B n X t"
    by blast
  from c X(1,2) g m have
    "\<exists>f S. icf_callable self A B n X t = Inr (f, S) \<and> shape f = filter_shape g (shape t) \<and>
       stats_match (auto_correlation S) (cross_correlation S) N"
    unfolding solve_incremental_contract_def by metis
  with X(3) show ?thesis by simp
qed

lemma increment_counts:
  assumes k: "\<forall>A B n X f S1. icf_callable self A B n X t = Inr (f, S1) \<longrightarrow>
                sample_count S1 = n + int (array_len X)"
    and b: "batch_of g Z"
    and r: "increment np self A B n Z t = Inr (f, S')"
  shows "sample_count S' = n + int (batch_len Z)"
proof -
  from b have "batch_shape Z \<noteq> None"
    by (simp add: batch_of_shape)
  from increment_forwards [OF this, of np self A B n t] r have
    "icf_callable self A B n (as_array Z) t = Inr (f, S')" "array_len (as_array Z) = batch_len Z"
    by simp_all
  with k show ?thesis by metis
qed

lemma increment_all_count:
  assumes c: "solve_incremental_contract (icf_callable self)"
    and k: "\<forall>A B n X f S1. icf_callable self A B n X t = Inr (f, S1) \<longrightarrow>
                sample_count S1 = n + int (array_len X)"
    and g: "extended_size g (shape t) = Some N"
  shows "list_all (batch_of g) Bs \<Longrightarrow>
     stats_match (auto_correlation S) (cross_correlation S) N \<Longrightarrow>
     \<exists>S'. increment_all np self S Bs t = Inr S' \<and>
          sample_count S' = sample_count S + int (sum_list (map batch_len Bs)) \<and>
          stats_match (auto_correlation S') (cross_correlation S') N"
proof (induction Bs arbitrary: S)
  case Nil
  then show ?case by simp
next
  case (Cons Z Zs)
  from Cons.prems have b: "batch_of g Z" and bs: "list_all (batch_of g) Zs" by simp_all
  from increment_step [OF c g b Cons.prems(2)] obtain f S1 where
    s1: "increment np self (auto_correlation S) (cross_correlation S) (sample_count S) Z t = Inr (f, S1)"
        "stats_match (auto_correlation S1) (cross_correlation S1) N"
    by blast
  from increment_counts [OF k b s1(1)] have
    n1: "sample_count S1 = sample_count S + int (batch_len Z)" .
  from Cons.IH [OF bs s1(2)] obtain S' where
    "increment_all np self S1 Zs t = Inr S'"
    "sample_count S' = sample_count S1 + int (sum_list (map batch_len Zs))"
    "stats_match (auto_correlation S') (cross_correlation S') N"
    by blast
  with s1 n1 show ?case by simp
qed

lemma null_icf_counts:
  "null_icf A B n X t = Inr (f, S1) \<Longrightarrow> sample_count S1 = n + int (array_len X)"
  by (auto simp: null_icf_def null_cf_def array_len_def split: list.splits option.splits if_splits)

lemma null_wrapper_icf: "icf_callable null_wrapper = null_icf"
  by (simp add: null_wrapper_def init_def)

lemma null_wrapper_cf: "cf_callable null_wrapper = null_cf"
  by (simp add: null_wrapper_def init_def)

subsection \<open>Sample counts along a chain of increments\<close>

text \<open>
  Claim C1, as the specification states it, fails: the sample count after two calls is
  to be \<open>n + |B1| + |B2|\<close>. \<^verbatim>\<open>increment\<close> keeps no count; what it returns is
  what its callable returns. With the callable that looks at the new batch only, a first
  call from the count 5 on two patches returns the count 2, and the call on its result
  with three more patches returns the count 3, not 10; one call from the same start on
  the five patches returns 5.
\<close>

theorem increment_count_counterexample:
  "increment numpy_strict batch_only_wrapper (zeros [4]) (zeros [4, 4]) 5
     (PList [zeros [1, 2, 2], zeros [1, 2, 2]]) (zeros [1, 1, 1]) =
     Inr (zeros [1, 1, 1],
          \<lparr>auto_correlation = zeros [4], cross_correlation = zeros [4, 4], sample_count = 2\<rparr>) \<and>
   increment numpy_strict batch_only_wrapper (zeros [4]) (zeros [4, 4]) 2
     (PArray (zeros [3, 1, 2, 2])) (zeros [1, 1, 1]) =
     Inr (zeros [1, 1, 1],
          \<lparr>auto_correlation = zeros [4], cross_correlation = zeros [4, 4], sample_count = 3\<rparr>) \<and>
   (3::int) \<noteq> 5 + 2 + 3 \<and>
   increment numpy_strict batch_only_wrapper (zeros [4]) (zeros [4, 4]) 5
     (PArray (zeros [5, 1, 2, 2])) (zeros [1, 1, 1]) =
     Inr (zeros [1, 1, 1],
          \<lparr>auto_correlation = zeros [4], cross_correlation = zeros [4, 4], sample_count = 5\<rparr>)"
  by (simp add: increment_def np_asarray_def homogeneous_def stack_def batch_only_wrapper_def
      init_def batch_only_icf_def null_cf_def zeros_def)

text \<open>
  Claim C1, amended. \<^verbatim>\<open>increment\<close> keeps and computes no sample count: it hands the
  statistics, \<open>n_x\<close> and the batch (a list of one member shape as one array of the
  same length) to the incremental solver unchanged and returns the solver's result
  unchanged. For a solver that meets the shape contract and returns statistics whose
  sample count is \<open>n_x + len(batch)\<close>, feeding any number of well-formed batches of
  one geometry to \<^verbatim>\<open>increment\<close>, each call starting from the statistics and the
  sample count the previous one returned, succeeds and ends with the starting count plus
  the sizes of all batches (for two batches \<open>n + |B1| + |B2|\<close>); the statistics stay
  fit for the next call; and one call from the same start with a batch \<open>B12\<close> that
  holds as many patches as all of them together ends with the same sample count.
\<close>

theorem increment_chain:
  "(batch_shape Z \<noteq> None \<longrightarrow>
      increment np self A B n_x Z t = icf_callable self A B n_x (as_array Z) t \<and>
      array_len (as_array Z) = batch_len Z) \<and>
   (solve_incremental_contract (icf_callable self) \<and>
    (\<forall>A B n X f S1. icf_callable self A B n X t = Inr (f, S1) \<longrightarrow>
       sample_count S1 = n + int (array_len X)) \<and>
    extended_size g (shape t) = Some N \<and> list_all (batch_of g) Bs \<and>
    stats_match (auto_correlation S) (cross_correlation S) N \<longrightarrow>
      (\<exists>S'. increment_all np self S Bs t = Inr S' \<and>
         sample_count S' = sample_count S + int (sum_list (map batch_len Bs)) \<and>
         stats_match (auto_correlation S') (cross_correlation S') N \<and>
         (\<forall>B12. batch_of g B12 \<and> batch_len B12 = sum_list (map batch_len Bs) \<longrightarrow>
            (\<exists>S12. increment_all np self S [B12] t = Inr S12 \<and>
               sample_count S12 = sample_count S'))))"
proof -
  have fwd: "increment np self A B n_x Z t = icf_callable self A B n_x (as_array Z) t \<and>
      array_len (as_array Z) = batch_len Z" if "batch_shape Z \<noteq> None"
    using increment_forwards [OF that, of np self A B n_x t] by simp
  have chain: "\<exists>S'. increment_all np self S Bs t = Inr S' \<and>
         sample_count S' = sample_count S + int (sum_list (map batch_len Bs)) \<and>
         stats_match (auto_correlation S') (cross_correlation S') N \<and>
         (\<forall>B12. batch_of g B12 \<and> batch_len B12 = sum_list (map batch_len Bs) \<longrightarrow>
            (\<exists>S12. increment_all np self S [B12] t = Inr S12 \<and>
               sample_count S12 = sample_count S'))"
    if c: "solve_incremental_contract (icf_callable self)"
      and k: "\<forall>A B n X f S1. icf_callable self A B n X t = Inr (f, S1) \<longrightarrow>
                sample_count S1 = n + int (array_len X)"
      and g: "extended_size g (shape t) = Some N"
      and bs: "list_all (batch_of g) Bs"
      and m: "stats_match (auto_correlation S) (cross_correlation S) N"
  proof -
    from increment_all_count [OF c k g bs m] obtain S' where
      S': "increment_all np self S Bs t = Inr S'"
          "sample_count S' = sample_count S + int (sum_list (map batch_len Bs))"
          "stats_match (auto_correlation S') (cross_correlation S') N"
      by blast
    have "\<exists>S12. increment_all np self S [B12] t = Inr S12 \<and> sample_count S12 = sample_count S'"
      if b: "batch_of g B12" and l: "batch_len B12 = sum_list (map batch_len Bs)" for B12
    proof -
      from b have "list_all (batch_of g) [B12]" by simp
      from increment_all_count [OF c k g this m] obtain S12 where
        "increment_all np self S [B12] t = Inr S12"
        "sample_count S12 = sample_count S + int (sum_list (map batch_len [B12]))"
        by blast
      with l S'(2) show ?thesis by simp
    qed
    with S' show ?thesis by blast
  qed
  from fwd chain show ?thesis by blast
qed

theorem increment_chain_witness:
  "increment numpy_strict null_wrapper (zeros [4]) (zeros [4, 4]) 5
     (PList [zeros [1, 2, 2], zeros [1, 2, 2]]) (zeros [1, 1, 1]) =
     null_icf (zeros [4]) (zeros [4, 4]) 5 (stack [zeros [1, 2, 2], zeros [1, 2, 2]])
       (zeros [1, 1, 1]) \<and>
   (\<exists>S2 S12.
     increment_all numpy_strict null_wrapper
       \<lparr>auto_correlation = zeros [4], cross_correlation = zeros [4, 4], sample_count = 5\<rparr>
       [PList [zeros [1, 2, 2], zeros [1, 2, 2]], PArray (zeros [3, 1, 2, 2])]
       (zeros [1, 1, 1]) = Inr S2 \<and>
     sample_count S2 = 10 \<and>
     increment_all numpy_strict null_wrapper
       \<lparr>auto_correlation = zeros [4], cross_correlation = zeros [4, 4], sample_count = 5\<rparr>
       [PArray (zeros [5, 1, 2, 2])] (zeros [1, 1, 1]) = Inr S12 \<and>
     sample_count S12 = sample_count S2)"
proof -
  let ?S = "\<lparr>auto_correlation = zeros [4], cross_correlation = zeros [4, 4], sample_count = 5\<rparr>
    :: int sufficient_statistics"
  let ?B1 = "PList [zeros [1, 2, 2], zeros [1, 2, 2]] :: int patches"
  let ?Bs = "[?B1, PArray (zeros [3, 1, 2, 2])] :: int patches list"
  let ?t = "zeros [1, 1, 1] :: int ndarray"
  have z: "batch_shape ?B1 \<noteq> None"
    by (simp add: batch_shape_def homogeneous_def)
  have c: "solve_incremental_contract (icf_callable null_wrapper)"
    by (simp add: null_wrapper_icf null_icf_contract)
  have k: "\<forall>A B n X f S1. icf_callable null_wrapper A B n X ?t = Inr (f, S1) \<longrightarrow>
      sample_count S1 = n + int (array_len X)"
    by (simp add: null_wrapper_icf null_icf_counts)
  have g: "extended_size [1, 2, 2] (shape ?t) = Some 4"
    by (simp add: zeros_def)
  have b: "list_all (batch_of [1, 2, 2]) ?Bs"
    by (simp add: batch_of_def batch_shape_def homogeneous_def stack_def zeros_def)
  have m: "stats_match (auto_correlation ?S) (cross_correlation ?S) 4"
    by (simp add: stats_match_def zeros_def)
  have b12: "batch_of [1, 2, 2] (PArray (zeros [5, 1, 2, 2]) :: int patches)"
    by (simp add: batch_of_def batch_shape_def zeros_def)
  have l: "batch_len (PArray (zeros [5, 1, 2, 2]) :: int patches) = sum_list (map batch_len ?Bs)"
    by (simp add: batch_len_def zeros_def)
  note inst = increment_chain [of ?B1 numpy_strict null_wrapper "zeros [4]" "zeros [4, 4]" 5 ?t
      "[1, 2, 2]" 4 ?Bs ?S]
  from inst z have first:
    "increment numpy_strict null_wrapper (zeros [4]) (zeros [4, 4]) 5 ?B1 ?t =
       null_icf (zeros [4]) (zeros [4, 4]) 5 (stack [zeros [1, 2, 2], zeros [1, 2, 2]]) ?t"
    by (simp add: null_wrapper_icf as_array_def)
  from inst c k g b m have
    "\<exists>S'. increment_all numpy_strict null_wrapper ?S ?Bs ?t = Inr S' \<and>
       sample_count S' = sample_count ?S + int (sum_list (map batch_len ?Bs)) \<and>
       (\<forall>B12. batch_of [1, 2, 2] B12 \<and> batch_len B12 = sum_list (map batch_len ?Bs) \<longrightarrow>
          (\<exists>S12. increment_all numpy_strict null_wrapper ?S [B12] ?t = Inr S12 \<and>
             sample_count S12 = sample_count S'))"
    by blast
  with b12 l have
    "\<exists>S2 S12. increment_all numpy_strict null_wrapper ?S ?Bs ?t = Inr S2 \<and>
       sample_count S2 = 10 \<and>
       increment_all numpy_strict null_wrapper ?S [PArray (zeros [5, 1, 2, 2])] ?t = Inr S12 \<and>
       sample_count S12 = sample_count S2"
    by (auto simp: batch_len_def zeros_def)
  with first show ?thesis by blast
qed

subsection \<open>Statistics of the wrong size\<close>

text \<open>
  Claim C2, as the specification states it, fails: statistics that do not fit the
  geometry of the batch are to make \<^verbatim>\<open>increment\<close> fail with
  \<open>DimensionMismatchError\<close>. \<^verbatim>\<open>increment\<close> compares nothing: with the callable
  that looks at the new batch only, an auto-correlation array of length 3 where
  \<open>N = 4\<close> goes through and the call returns normally.
\<close>

theorem increment_mismatch_counterexample:
  "shape (zeros [3] :: int ndarray) \<noteq> [(2 + 1 - 1) * (2 + 1 - 1) * 1] \<and>
   increment numpy_strict batch_only_wrapper (zeros [3]) (zeros [4, 4]) 5
     (PList [zeros [1, 2, 2], zeros [1, 2, 2]]) (zeros [1, 1, 1]) =
     Inr (zeros [1, 1, 1],
          \<lparr>auto_correlation = zeros [4], cross_correlation = zeros [4, 4], sample_count = 2\<rparr>) \<and>
   increment numpy_strict batch_only_wrapper (zeros [3]) (zeros [4, 4]) 5
     (PList [zeros [1, 2, 2], zeros [1, 2, 2]]) (zeros [1, 1, 1]) \<noteq> Inl DimensionMismatchError"
  by (simp add: increment_def np_asarray_def homogeneous_def stack_def batch_only_wrapper_def
      init_def batch_only_icf_def null_cf_def zeros_def)

text \<open>
  Claim C2, amended. \<^verbatim>\<open>increment\<close> has no check of the statistics against the
  geometry of the batch. For every call on a well-formed batch \<open>Z\<close> of patches of shape
  \<open>(c, ph, pw)\<close>, whatever the sizes of the statistics, it returns what the
  incremental solver returns on the statistics, \<open>n_x\<close>, the batch as one array of
  shape \<open>(len(Z), c, ph, pw)\<close> and the response; so it fails with
  \<open>DimensionMismatchError\<close> exactly when that call of the solver does.
\<close>

theorem increment_dimension_mismatch:
  assumes "batch_of [c, ph, pw] Z"
  shows "shape (as_array Z) = [batch_len Z, c, ph, pw] \<and>
         increment np self A B n_x Z t = icf_callable self A B n_x (as_array Z) t \<and>
         (increment np self A B n_x Z t = Inl DimensionMismatchError \<longleftrightarrow>
          icf_callable self A B n_x (as_array Z) t = Inl DimensionMismatchError)"
proof -
  from batch_of_shape [OF assms] have s: "batch_shape Z = Some [batch_len Z, c, ph, pw]" .
  then have "batch_shape Z \<noteq> None" by simp
  from increment_forwards [OF this, of np self A B n_x t] s show ?thesis by simp
qed

theorem increment_dimension_mismatch_witness:
  "increment numpy_strict null_wrapper (zeros [3]) (zeros [4, 4]) 5
     (PList [zeros [1, 2, 2], zeros [1, 2, 2]]) (zeros [1, 1, 1]) =
     null_icf (zeros [3]) (zeros [4, 4]) 5 (stack [zeros [1, 2, 2], zeros [1, 2, 2]])
       (zeros [1, 1, 1]) \<and>
   increment numpy_strict null_wrapper (zeros [3]) (zeros [4, 4]) 5
     (PList [zeros [1, 2, 2], zeros [1, 2, 2]]) (zeros [1, 1, 1]) = Inl DimensionMismatchError"
proof -
  have b: "batch_of [1, 2, 2] (PList [zeros [1, 2, 2], zeros [1, 2, 2]] :: int patches)"
    by (simp add: batch_of_def batch_shape_def homogeneous_def stack_def zeros_def)
  have e: "null_icf (zeros [3]) (zeros [4, 4]) 5 (stack [zeros [1, 2, 2], zeros [1, 2, 2]])
      (zeros [1, 1, 1] :: int ndarray) = Inl DimensionMismatchError"
    by (simp add: null_icf_def null_cf_def stack_def zeros_def stats_match_def)
  from increment_dimension_mismatch [OF b, of numpy_strict null_wrapper "zeros [3]" "zeros [4, 4]" 5
      "zeros [1, 1, 1]"] e
  show ?thesis by (simp add: null_wrapper_icf as_array_def)
qed

subsection \<open>Lists of patches\<close>

text \<open>
  Claim C3, as the specification states it, fails: for a list of patches of different
  shapes the call is to fail with \<open>ShapeMismatchError\<close>. The wrapper only calls
  \<^verbatim>\<open>np.asarray\<close>; on the list of a \<open>(1, 2, 2)\<close> and a \<open>(1, 3, 3)\<close> patch numpy
  raises its own \<^verbatim>\<open>ValueError\<close>, which is what leaves \<^verbatim>\<open>train\<close> and
  \<^verbatim>\<open>increment\<close>.
\<close>

theorem ragged_list_counterexample:
  "\<not> homogeneous [zeros [1, 2, 2], zeros [1, 3, 3] :: int ndarray] \<and>
   train numpy_strict null_wrapper (PList [zeros [1, 2, 2], zeros [1, 3, 3]]) (zeros [1, 1, 1])
     = Inl ValueError \<and>
   train numpy_strict null_wrapper (PList [zeros [1, 2, 2], zeros [1, 3, 3]]) (zeros [1, 1, 1])
     \<noteq> Inl ShapeMismatchError \<and>
   increment numpy_strict null_wrapper (zeros [4]) (zeros [4, 4]) 5
       (PList [zeros [1, 2, 2], zeros [1, 3, 3]]) (zeros [1, 1, 1])
     \<noteq> Inl ShapeMismatchError"
  by (simp add: homogeneous_def zeros_def train_def increment_def np_asarray_def numpy_strict_def)

text \<open>
  Claim C3, amended. A list whose members share one shape reaches the solver as the
  single stacked array. The wrapper has no shape check of its own: for a list without a
  common member shape the outcome is what \<^verbatim>\<open>np.asarray\<close> makes of the list, its
  error let through with the solver never called, or its array handed to the solver.
\<close>

theorem list_normalization:
  "(homogeneous L \<longrightarrow>
      train np self (PList L) t = cf_callable self (stack L) t \<and>
      increment np self A B n_x (PList L) t = icf_callable self A B n_x (stack L) t) \<and>
   (\<not> homogeneous L \<longrightarrow>
      train np self (PList L) t =
        (case np L of Inl e \<Rightarrow> Inl e | Inr X \<Rightarrow> cf_callable self X t) \<and>
      increment np self A B n_x (PList L) t =
        (case np L of Inl e \<Rightarrow> Inl e | Inr Z \<Rightarrow> icf_callable self A B n_x Z t))"
  by (simp add: train_def increment_def np_asarray_def)

theorem list_normalization_witness:
  "train numpy_strict null_wrapper (PList [zeros [1, 2, 2], zeros [1, 2, 2]]) (zeros [1, 1, 1]) =
     null_cf (stack [zeros [1, 2, 2], zeros [1, 2, 2]]) (zeros [1, 1, 1]) \<and>
   increment numpy_strict null_wrapper (zeros [4]) (zeros [4, 4]) 5
       (PList [zeros [1, 2, 2], zeros [1, 3, 3]]) (zeros [1, 1, 1]) = Inl ValueError"
proof -
  have h: "homogeneous [zeros [1, 2, 2], zeros [1, 2, 2] :: int ndarray]"
    by (simp add: homogeneous_def)
  have r: "\<not> homogeneous [zeros [1, 2, 2], zeros [1, 3, 3] :: int ndarray]"
    by (simp add: homogeneous_def zeros_def)
  from h r
    list_normalization [of "[zeros [1, 2, 2], zeros [1, 2, 2]]" numpy_strict null_wrapper
      "zeros [1, 1, 1]" "zeros [4]" "zeros [4, 4]" 5]
    list_normalization [of "[zeros [1, 2, 2], zeros [1, 3, 3]]" numpy_strict null_wrapper
      "zeros [1, 1, 1]" "zeros [4]" "zeros [4, 4]" 5]
  show ?thesis
    by (simp add: null_wrapper_cf numpy_strict_def)
qed

text \<open>
  Claim C9. For a list \<open>L\<close> of patches of one shape, \<^verbatim>\<open>train\<close> and
  \<^verbatim>\<open>increment\<close> return on the list exactly what they return on the array that
  stacks its members.
\<close>

theorem list_array_interchangeable:
  assumes "homogeneous L"
  shows "train np self (PList L) t = train np self (PArray (stack L)) t \<and>
         increment np self A B n_x (PList L) t = increment np self A B n_x (PArray (stack L)) t"
  using assms by (simp add: train_def increment_def np_asarray_def)

theorem list_array_interchangeable_witness:
  "homogeneous [zeros [1, 2, 2], zeros [1, 2, 2] :: int ndarray] \<and>
   train numpy_strict null_wrapper (PList [zeros [1, 2, 2], zeros [1, 2, 2]]) (zeros [1, 1, 1]) =
     train numpy_strict null_wrapper (PArray (stack [zeros [1, 2, 2], zeros [1, 2, 2]])) (zeros [1, 1, 1]) \<and>
   increment numpy_strict null_wrapper (zeros [4]) (zeros [4, 4]) 5
       (PList [zeros [1, 2, 2], zeros [1, 2, 2]]) (zeros [1, 1, 1]) =
     increment numpy_strict null_wrapper (zeros [4]) (zeros [4, 4]) 5
       (PArray (stack [zeros [1, 2, 2], zeros [1, 2, 2]])) (zeros [1, 1, 1])"
proof -
  have h: "homogeneous [zeros [1, 2, 2], zeros [1, 2, 2] :: int ndarray]"
    by (simp add: homogeneous_def)
  from h list_array_interchangeable [OF h] show ?thesis by simp
qed

subsection \<open>Calls on one instance\<close>

text \<open>
  Claim C4. With the solver fixed, the result of every call in a sequence of calls on
  one instance is a function of the arguments of that call alone, and the instance is
  left as it was; so two calls with identical arguments return identical results, in
  particular one made right after the other.
\<close>

theorem calls_deterministic:
  "run_calls np self cs = (map (\<lambda>c. fst (invoke np self c)) cs, self) \<and>
   run_calls np self [c, c] = ([fst (invoke np self c), fst (invoke np self c)], self)"
proof -
  have "run_calls np self ds = (map (\<lambda>c. fst (invoke np self c)) ds, self)" for ds
    using run_calls_results [of np self ds] run_calls_self [of np self ds]
    by (simp add: prod_eq_iff)
  from this [of cs] this [of "[c, c]"] show ?thesis by simp
qed

text \<open>
  Claim C8. Whatever calls were made before on an instance, \<^verbatim>\<open>train\<close> returns
  what the solver given at construction returns on the (normalised) patches and the
  response: the result depends on these two arguments only, and nothing of the earlier
  calls is kept.
\<close>

theorem train_cold:
  "fst (invoke np (snd (run_calls np (init cf icf) cs)) (Train X t)) =
     (case X of
        PList xs \<Rightarrow> (case np_asarray np xs of Inl e \<Rightarrow> Inl e | Inr X' \<Rightarrow> cf X' t)
      | PArray X' \<Rightarrow> cf X' t) \<and>
   fst (invoke np (snd (run_calls np self cs)) (Train X t)) = train np self X t"
  by (simp add: run_calls_self train_def init_def split: patches.splits sum.splits)

subsection \<open>One output shape for both paths\<close>

text \<open>
  Claim C5. Let both solvers meet their contracts. On well-formed inputs of one
  geometry, patches of shape \<open>(c, ph, pw)\<close> and a response of shape \<open>(1, rh, rw)\<close>,
  \<^verbatim>\<open>train\<close> and \<^verbatim>\<open>increment\<close> both succeed and return a filter of shape
  \<open>(c, rh, rw)\<close>, an auto-correlation array of length \<open>N\<close> and an \<open>N\<close> by \<open>N\<close>
  cross-correlation array, where \<open>N = (ph + rh - 1) * (pw + rw - 1) * c\<close>.
\<close>

theorem train_increment_output_shape:
  assumes "solve_contract (cf_callable self)"
    and "solve_incremental_contract (icf_callable self)"
    and "batch_of [c, ph, pw] X" and "batch_of [c, ph, pw] Z"
    and "shape t = [1, rh, rw]"
    and "0 < c" "0 < ph" "0 < pw" "0 < rh" "0 < rw"
    and "N = (ph + rh - 1) * (pw + rw - 1) * c"
    and "shape A = [N]" and "shape B = [N, N]"
  shows "\<exists>f S f' S'.
           train np self X t = Inr (f, S) \<and>
           increment np self A B n_x Z t = Inr (f', S') \<and>
           shape f = [c, rh, rw] \<and> shape f' = [c, rh, rw] \<and>
           shape (auto_correlation S) = [N] \<and> shape (auto_correlation S') = [N] \<and>
           shape (cross_correlation S) = [N, N] \<and> shape (cross_correlation S') = [N, N]"
proof -
  from assms(5-11) have g: "extended_size [c, ph, pw] (shape t) = Some N"
    by simp
  from assms(5) have fs: "filter_shape [c, ph, pw] (shape t) = [c, rh, rw]"
    by simp
  from batch_of_train [OF assms(3)] obtain X' where
    X': "shape X' = batch_len X # [c, ph, pw]" "0 < batch_len X"
        "train np self X t = cf_callable self X' t"
    by blast
  from assms(1) X'(1,2) g obtain f S where
    "cf_callable self X' t = Inr (f, S)" "shape f = filter_shape [c, ph, pw] (shape t)"
    "stats_match (auto_correlation S) (cross_correlation S) N"
    unfolding solve_contract_def by metis
  with X'(3) fs have tr: "train np self X t = Inr (f, S)" "shape f = [c, rh, rw]"
    "shape (auto_correlation S) = [N]" "shape (cross_correlation S) = [N, N]"
    by (simp_all add: stats_match_def)
  from assms(12,13) have m: "stats_match A B N"
    by (simp add: stats_match_def)
  from increment_step [OF assms(2) g assms(4) m, of np n_x] fs obtain f' S' where
    "increment np self A B n_x Z t = Inr (f', S')" "shape f' = [c, rh, rw]"
    "shape (auto_correlation S') = [N]" "shape (cross_correlation S') = [N, N]"
    by (auto simp: stats_match_def)
  with tr show ?thesis by blast
qed

theorem train_increment_output_shape_witness:
  "\<exists>f S f' S'.
     train numpy_strict null_wrapper (PList [zeros [1, 2, 2], zeros [1, 2, 2]]) (zeros [1, 1, 1])
       = Inr (f, S) \<and>
     increment numpy_strict null_wrapper (zeros [4]) (zeros [4, 4]) 5 (PArray (zeros [3, 1, 2, 2]))
       (zeros [1, 1, 1]) = Inr (f', S') \<and>
     shape f = [1, 1, 1] \<and> shape f' = [1, 1, 1] \<and>
     shape (auto_correlation S) = [4] \<and> shape (auto_correlation S') = [4] \<and>
     shape (cross_correlation S) = [4, 4] \<and> shape (cross_correlation S') = [4, 4]"
proof -
  have c: "solve_contract (cf_callable null_wrapper)"
    by (simp add: null_wrapper_cf null_cf_contract)
  have ic: "solve_incremental_contract (icf_callable null_wrapper)"
    by (simp add: null_wrapper_icf null_icf_contract)
  have b: "batch_of [1, 2, 2] (PList [zeros [1, 2, 2], zeros [1, 2, 2]] :: int patches)"
    by (simp add: batch_of_def batch_shape_def homogeneous_def stack_def zeros_def)
  have b': "batch_of [1, 2, 2] (PArray (zeros [3, 1, 2, 2]) :: int patches)"
    by (simp add: batch_of_def batch_shape_def zeros_def)
  have t: "shape (zeros [1, 1, 1] :: int ndarray) = [1, 1, 1]"
    by (simp add: zeros_def)
  have N: "(4::nat) = (2 + 1 - 1) * (2 + 1 - 1) * 1"
    by simp
  have A: "shape (zeros [4] :: int ndarray) = [4]" and B: "shape (zeros [4, 4] :: int ndarray) = [4, 4]"
    by (simp_all add: zeros_def)
  show ?thesis
    by (rule train_increment_output_shape [OF c ic b b' t _ _ _ _ _ N A B]) simp_all
qed

section \<open>Properties of the alignment algorithm\<close>

lemma iterations_length:
  "iterations alg img k cur = Inr (ss, r) \<Longrightarrow> length ss \<le> k"
proof (induction k arbitrary: cur ss)
  case 0
  then show ?case by simp
next
  case (Suc k)
  then show ?case
    by (fastforce simp: Let_def split: if_splits sum.splits)
qed

lemma iterations_trace:
  "iterations alg img k cur = Inr (ss, r) \<Longrightarrow>
     (\<forall>i<length ss. (cur # ss) ! Suc i =
        update alg ((cur # ss) ! i) (responses alg img ((cur # ss) ! i))) \<and>
     (r = MaxIters \<longrightarrow> length ss = k) \<and>
     (r = Converged \<longrightarrow> ss \<noteq> [] \<and>
        converged alg ((cur # ss) ! (length ss - 1)) (last ss))"
proof (induction k arbitrary: cur ss)
  case 0
  then show ?case by simp
next
  case (Suc k)
  let ?nxt = "update alg cur (responses alg img cur)"
  from Suc.prems have nd: "\<not> list_all (degenerate alg) (responses alg img cur)"
    by (auto simp: Let_def split: if_splits)
  show ?case
  proof (cases "converged alg cur ?nxt")
    case True
    with Suc.prems nd have "ss = [?nxt]" "r = Converged"
      by (simp_all add: Let_def)
    with True show ?thesis by simp
  next
    case False
    with Suc.prems nd obtain ss' where
      rec: "iterations alg img k ?nxt = Inr (ss', r)" and ss: "ss = ?nxt # ss'"
      by (auto simp: Let_def split: sum.splits)
    from Suc.IH [OF rec] have
      ih1: "\<forall>i<length ss'. (?nxt # ss') ! Suc i =
              update alg ((?nxt # ss') ! i) (responses alg img ((?nxt # ss') ! i))"
      and ih2: "r = MaxIters \<longrightarrow> length ss' = k"
      and ih3: "r = Converged \<longrightarrow> ss' \<noteq> [] \<and>
              converged alg ((?nxt # ss') ! (length ss' - 1)) (last ss')"
      by blast+
    have a: "(cur # ss) ! Suc i = update alg ((cur # ss) ! i) (responses alg img ((cur # ss) ! i))"
      if "i < length ss" for i
    proof (cases i)
      case 0
      with ss show ?thesis by simp
    next
      case (Suc j)
      with that ss have "j < length ss'" by simp
      with ih1 Suc ss show ?thesis by simp
    qed
    have c: "ss \<noteq> [] \<and> converged alg ((cur # ss) ! (length ss - 1)) (last ss)"
      if "r = Converged"
    proof -
      from ih3 that have n: "ss' \<noteq> []" and
        cv: "converged alg ((?nxt # ss') ! (length ss' - 1)) (last ss')"
        by blast+
      from n have "(cur # ss) ! (length ss - 1) = (?nxt # ss') ! (length ss' - 1)"
        "last ss = last ss'"
        by (simp_all add: ss nth_Cons')
      with cv ss show ?thesis by simp
    qed
    from ih2 ss have b: "r = MaxIters \<longrightarrow> length ss = Suc k" by simp
    from a b c show ?thesis by blast
  qed
qed

text \<open>
  Claim C6. A run with \<open>max_iters = 0\<close> returns exactly one shape, the reconstruction of
  the initial shape, and never fails. In every run that returns, the reconstruction is
  index 0 of the result and is not counted: the result holds one shape more than the
  number of iterations made; every counted iteration is one update of the shape before
  it, the first of them of the reconstructed shape; the number of iterations is at most
  \<open>max_iters\<close>, and it is \<open>max_iters\<close> unless the run stopped earlier because its
  last two shapes met the convergence check.
\<close>

theorem reconstruction_not_counted:
  "run alg img s 0 gt = Inr \<lparr>shapes = [reconstruct alg s], n_iters = 0, stop = MaxIters\<rparr> \<and>
   (run alg img s max_iters gt = Inr res \<longrightarrow>
      shapes res \<noteq> [] \<and> shapes res ! 0 = reconstruct alg s \<and>
      length (shapes res) = Suc (n_iters res) \<and> n_iters res \<le> max_iters \<and>
      (\<forall>i<n_iters res. shapes res ! Suc i =
         update alg (shapes res ! i) (responses alg img (shapes res ! i))) \<and>
      (stop res = MaxIters \<longrightarrow> n_iters res = max_iters) \<and>
      (n_iters res < max_iters \<longrightarrow> stop res = Converged) \<and>
      (stop res = Converged \<longrightarrow> 0 < n_iters res \<and>
         converged alg (shapes res ! (n_iters res - 1)) (last (shapes res))))"
proof -
  have "run alg img s 0 gt = Inr \<lparr>shapes = [reconstruct alg s], n_iters = 0, stop = MaxIters\<rparr>"
    by (simp add: run_def)
  moreover have "shapes res \<noteq> [] \<and> shapes res ! 0 = reconstruct alg s \<and>
      length (shapes res) = Suc (n_iters res) \<and> n_iters res \<le> max_iters \<and>
      (\<forall>i<n_iters res. shapes res ! Suc i =
         update alg (shapes res ! i) (responses alg img (shapes res ! i))) \<and>
      (stop res = MaxIters \<longrightarrow> n_iters res = max_iters) \<and>
      (n_iters res < max_iters \<longrightarrow> stop res = Converged) \<and>
      (stop res = Converged \<longrightarrow> 0 < n_iters res \<and>
         converged alg (shapes res ! (n_iters res - 1)) (last (shapes res)))"
    if r: "run alg img s max_iters gt = Inr res"
  proof -
    from r obtain ss why where
      i: "iterations alg img max_iters (reconstruct alg s) = Inr (ss, why)" and
      res: "res = \<lparr>shapes = reconstruct alg s # ss, n_iters = length ss, stop = why\<rparr>"
      by (auto simp: run_def Let_def split: sum.splits)
    let ?ss = "reconstruct alg s # ss"
    from res have f: "shapes res = ?ss" "n_iters res = length ss" "stop res = why"
      by simp_all
    from iterations_trace [OF i] have
      t1: "\<forall>i<length ss. ?ss ! Suc i = update alg (?ss ! i) (responses alg img (?ss ! i))"
      and t2: "why = MaxIters \<longrightarrow> length ss = max_iters"
      and t3: "why = Converged \<longrightarrow> ss \<noteq> [] \<and> converged alg (?ss ! (length ss - 1)) (last ss)"
      by blast+
    from t2 have t4: "length ss < max_iters \<longrightarrow> why = Converged"
      by (cases why) simp_all
    from t3 have t5: "why = Converged \<longrightarrow>
        0 < length ss \<and> converged alg (?ss ! (length ss - 1)) (last ?ss)"
      by auto
    have t0: "?ss \<noteq> [] \<and> ?ss ! 0 = reconstruct alg s \<and> length ?ss = Suc (length ss)"
      by simp
    from iterations_length [OF i] t0 t1 t2 t4 t5 show ?thesis
      unfolding f by blast
  qed
  ultimately show ?thesis by blast
qed

theorem reconstruction_not_counted_witness:
  "run halving () (- 8) 0 None = Inr \<lparr>shapes = [8], n_iters = 0, stop = MaxIters\<rparr> \<and>
   run halving () (- 8) 2 None = Inr \<lparr>shapes = [8, 4, 2], n_iters = 2, stop = MaxIters\<rparr> \<and>
   [8, 4, 2 :: int] ! 0 = reconstruct halving (- 8) \<and>
   [8, 4, 2 :: int] ! 1 = update halving 8 (responses halving () 8) \<and>
   run halving () (- 1) 5 None = Inr \<lparr>shapes = [1, 0, 0], n_iters = 2, stop = Converged\<rparr>"
proof -
  have r: "run halving () (- 8) 2 None = Inr \<lparr>shapes = [8, 4, 2], n_iters = 2, stop = MaxIters\<rparr>"
    by (simp add: run_def halving_def numeral_2_eq_2)
  have c: "run halving () (- 1) 5 None = Inr \<lparr>shapes = [1, 0, 0], n_iters = 2, stop = Converged\<rparr>"
    by (simp add: run_def halving_def eval_nat_numeral)
  from r c reconstruction_not_counted [of halving "()" "- 8" None 2
      "\<lparr>shapes = [8, 4, 2], n_iters = 2, stop = MaxIters\<rparr>"]
    reconstruction_not_counted [of halving "()" "- 1" None 5
      "\<lparr>shapes = [1, 0, 0], n_iters = 2, stop = Converged\<rparr>"]
  show ?thesis by (simp add: halving_def)
qed

section \<open>Properties of the active-component setting\<close>










section \<open>Properties of the fitter's construction\<close>

lemma build_algorithms_Inr:
  "build_algorithms cls es sms is = Inr algs \<Longrightarrow>
     length algs = length is \<and>
     (\<forall>j<length is. is ! j < length es \<and> is ! j < length sms \<and>
        algs ! j = cls (es ! (is ! j)) (sms ! (is ! j)))"
proof (induction "is" arbitrary: algs)
  case Nil
  then show ?case by simp
next
  case (Cons i "is")
  from Cons.prems obtain algs' where
    r: "build_algorithms cls es sms is = Inr algs'" and e: "algs = cls (es ! i) (sms ! i) # algs'"
    and b: "i < length es" "i < length sms"
    by (auto split: if_splits sum.splits)
  from Cons.IH [OF r] have
    ih: "length algs' = length is"
        "\<forall>j<length is. is ! j < length es \<and> is ! j < length sms \<and>
           algs' ! j = cls (es ! (is ! j)) (sms ! (is ! j))"
    by simp_all
  have "(i # is) ! j < length es \<and> (i # is) ! j < length sms \<and>
      algs ! j = cls (es ! ((i # is) ! j)) (sms ! ((i # is) ! j))" if "j < length (i # is)" for j
    using that ih(2) e b by (cases j) simp_all
  with ih(1) e show ?case by simp
qed

text \<open>
  Claim C10. A successful construction of a \<^verbatim>\<open>GradientDescentCLMFitter\<close> on the CLM
  at reference \<open>r\<close> leaves the store changed at \<open>r\<close> only, where the shape models are
  now what \<^verbatim>\<open>set_models_components\<close> made of them for \<open>n_shape\<close>; the fitter
  holds one algorithm per scale, the one of scale \<open>i\<close> built from the \<open>i\<close>-th expert
  ensemble and the \<open>i\<close>-th shape model as already set; and the property \<^verbatim>\<open>clm\<close> of
  the fitter is the reference \<open>r\<close> itself, behind which the changed model is found.
\<close>

theorem gd_clm_fitter_construction:
  assumes "gd_clm_fitter_init smc h r gd_algorithm_cls n_shape = Inr (fitter, h')"
  shows "\<exists>sms. smc (shape_models (h r)) n_shape = Inr sms \<and>
           h' = h(r := (h r)\<lparr>shape_models := sms\<rparr>) \<and>
           length (algorithms fitter) = n_scales (h r) \<and>
           (\<forall>i<n_scales (h r).
              algorithms fitter ! i = gd_algorithm_cls (expert_ensembles (h r) ! i) (sms ! i)) \<and>
           clm fitter = r \<and> shape_models (h' (clm fitter)) = sms"
proof -
  from assms obtain sms algs where
    s: "smc (shape_models (h r)) n_shape = Inr sms" and
    b: "build_algorithms gd_algorithm_cls (expert_ensembles (h r)) sms [0..<n_scales (h r)] = Inr algs"
    and f: "fitter = clm_fitter_init (h(r := (h r)\<lparr>shape_models := sms\<rparr>)) r algs"
    and h': "h' = h(r := (h r)\<lparr>shape_models := sms\<rparr>)"
    by (auto simp: gd_clm_fitter_init_def Let_def split: sum.splits)
  from build_algorithms_Inr [OF b] have
    "length algs = n_scales (h r)"
    "\<forall>i<n_scales (h r). algs ! i = gd_algorithm_cls (expert_ensembles (h r) ! i) (sms ! i)"
    by simp_all
  with s f h' show ?thesis
    by (simp add: clm_fitter_init_def clm_def)
qed

theorem gd_clm_fitter_construction_witness:
  "\<exists>fitter h'.
     gd_clm_fitter_init set_models_components two_scale 0 Pair (Single (Count 3)) = Inr (fitter, h') \<and>
     shape_models (h' 0) = [five\<lparr>n_active_components := 3\<rparr>, five\<lparr>n_active_components := 3\<rparr>] \<and>
     shape_models (h' 1) = [five, five] \<and>
     algorithms fitter =
       [(''coarse'', five\<lparr>n_active_components := 3\<rparr>), (''fine'', five\<lparr>n_active_components := 3\<rparr>)] \<and>
     clm fitter = 0"
proof -
  let ?m = "five\<lparr>n_active_components := 3\<rparr>"
  have s: "set_models_components [five, five] (Single (Count 3)) = Inr [?m, ?m]"
    by (simp add: set_models_components_def set_count_def five_def numeral_2_eq_2)
  have "[0..<2] = [0, Suc 0]"
    by (simp add: upt_conv_Cons numeral_2_eq_2)
  then have "\<exists>fitter h'.
      gd_clm_fitter_init set_models_components two_scale 0 Pair (Single (Count 3)) = Inr (fitter, h')"
    by (simp add: gd_clm_fitter_init_def two_scale_def s Let_def)
  then obtain fitter h' where
    e: "gd_clm_fitter_init set_models_components two_scale 0 Pair (Single (Count 3)) = Inr (fitter, h')"
    by blast
  from gd_clm_fitter_construction [OF e] s obtain sms where
    "sms = [?m, ?m]" "h' = two_scale(0 := (two_scale 0)\<lparr>shape_models := sms\<rparr>)"
    "length (algorithms fitter) = 2"
    "\<forall>i<2. algorithms fitter ! i = (expert_ensembles (two_scale 0) ! i, sms ! i)"
    "clm fitter = 0"
    by (auto simp: two_scale_def)
  then have "shape_models (h' 0) = [?m, ?m]" "shape_models (h' 1) = [five, five]"
    "algorithms fitter = [(''coarse'', ?m), (''fine'', ?m)]" "clm fitter = 0"
    by (simp_all add: two_scale_def list_eq_iff_nth_eq less_Suc_eq numeral_2_eq_2)
  with e show ?thesis by blast
qed

end
